theory Spec2Isabelle
  imports Complex_Main "HOL-Library.Multiset" "HOL-Library.AList"
begin

section \<open>JavaScript values\<close>

text \<open>
  Numbers are modelled as exact rationals extended with the three special values of
  IEEE arithmetic, so that a division by zero is a value and not an unspecified term.
  Rounding and the sign of zero are not modelled.
\<close>

datatype jsnum = Fin rat | PosInf | NegInf | NaN

fun js_neg :: "jsnum \<Rightarrow> jsnum" where
  "js_neg (Fin a) = Fin (- a)"
| "js_neg PosInf = NegInf"
| "js_neg NegInf = PosInf"
| "js_neg NaN = NaN"

fun is_neg :: "jsnum \<Rightarrow> bool" where
  "is_neg (Fin a) = (a < 0)"
| "is_neg NegInf = True"
| "is_neg _ = False"

definition signed_inf :: "bool \<Rightarrow> jsnum" where
  "signed_inf negative = (if negative then NegInf else PosInf)"

fun js_add :: "jsnum \<Rightarrow> jsnum \<Rightarrow> jsnum" where
  "js_add (Fin a) (Fin b) = Fin (a + b)"
| "js_add NaN _ = NaN"
| "js_add _ NaN = NaN"
| "js_add PosInf NegInf = NaN"
| "js_add NegInf PosInf = NaN"
| "js_add PosInf _ = PosInf"
| "js_add _ PosInf = PosInf"
| "js_add NegInf _ = NegInf"
| "js_add _ NegInf = NegInf"

definition js_sub :: "jsnum \<Rightarrow> jsnum \<Rightarrow> jsnum" where
  "js_sub a b = js_add a (js_neg b)"

fun js_mul :: "jsnum \<Rightarrow> jsnum \<Rightarrow> jsnum" where
  "js_mul (Fin a) (Fin b) = Fin (a * b)"
| "js_mul NaN _ = NaN"
| "js_mul _ NaN = NaN"
| "js_mul a b =
     (if a = Fin 0 \<or> b = Fin 0 then NaN else signed_inf (is_neg a \<noteq> is_neg b))"

fun js_div :: "jsnum \<Rightarrow> jsnum \<Rightarrow> jsnum" where
  "js_div (Fin a) (Fin b) =
     (if b \<noteq> 0 then Fin (a / b) else if a = 0 then NaN else signed_inf (a < 0))"
| "js_div NaN _ = NaN"
| "js_div _ NaN = NaN"
| "js_div (Fin a) _ = Fin 0"
| "js_div a (Fin b) = signed_inf (is_neg a \<noteq> (b < 0))"
| "js_div _ _ = NaN"


text \<open>
  Values as the wrappers inspect them: \<^verbatim>\<open>typeof\<close>, \<^verbatim>\<open>instanceof\<close> against the four DOM
  classes, truthiness, and reading a property. A function and a DOM object carry a number
  that tells one from another. A plain object is the list of its own properties.
\<close>

datatype element =
    HTMLImageElement nat
  | HTMLCanvasElement nat
  | HTMLVideoElement nat
  | ImageData nat

datatype jsval =
    JUndefined
  | JNull
  | JBool bool
  | JNumber jsnum
  | JString string
  | JFunction nat
  | JElement element
  | JArray "jsval list"
  | JObject "(string \<times> jsval) list"

fun typeof :: "jsval \<Rightarrow> string" where
  "typeof JUndefined = ''undefined''"
| "typeof JNull = ''object''"
| "typeof (JBool _) = ''boolean''"
| "typeof (JNumber _) = ''number''"
| "typeof (JString _) = ''string''"
| "typeof (JFunction _) = ''function''"
| "typeof (JElement _) = ''object''"
| "typeof (JArray _) = ''object''"
| "typeof (JObject _) = ''object''"

fun truthy :: "jsval \<Rightarrow> bool" where
  "truthy JUndefined = False"
| "truthy JNull = False"
| "truthy (JBool b) = b"
| "truthy (JNumber n) = (n \<noteq> Fin 0 \<and> n \<noteq> NaN)"
| "truthy (JString s) = (s \<noteq> [])"
| "truthy _ = True"

text \<open>\<^verbatim>\<open>a || b\<close>\<close>

definition js_or :: "jsval \<Rightarrow> jsval \<Rightarrow> jsval" where
  "js_or a b = (if truthy a then a else b)"

text \<open>
  \<^verbatim>\<open>o.name\<close> for a value that is neither \<^verbatim>\<open>undefined\<close> nor \<^verbatim>\<open>null\<close>: the property of a plain
  object, and \<^verbatim>\<open>undefined\<close> for the properties the wrappers ask of anything else
  (\<^verbatim>\<open>elt\<close>, \<^verbatim>\<open>canvas\<close> and the option names).
\<close>

fun prop_of :: "jsval \<Rightarrow> string \<Rightarrow> jsval" where
  "prop_of (JObject fs) name = (case map_of fs name of None \<Rightarrow> JUndefined | Some v \<Rightarrow> v)"
| "prop_of _ name = JUndefined"

text \<open>Reading a property of \<^verbatim>\<open>undefined\<close> or \<^verbatim>\<open>null\<close> throws a TypeError.\<close>

definition nullish :: "jsval \<Rightarrow> bool" where
  "nullish v = (v = JUndefined \<or> v = JNull)"

fun instanceof_HTMLImageElement :: "jsval \<Rightarrow> bool" where
  "instanceof_HTMLImageElement (JElement (HTMLImageElement _)) = True"
| "instanceof_HTMLImageElement _ = False"

fun instanceof_HTMLCanvasElement :: "jsval \<Rightarrow> bool" where
  "instanceof_HTMLCanvasElement (JElement (HTMLCanvasElement _)) = True"
| "instanceof_HTMLCanvasElement _ = False"

fun instanceof_HTMLVideoElement :: "jsval \<Rightarrow> bool" where
  "instanceof_HTMLVideoElement (JElement (HTMLVideoElement _)) = True"
| "instanceof_HTMLVideoElement _ = False"

fun instanceof_ImageData :: "jsval \<Rightarrow> bool" where
  "instanceof_ImageData (JElement (ImageData _)) = True"
| "instanceof_ImageData _ = False"

section \<open>Promises, errors and callbacks\<close>

text \<open>
  The errors the wrappers throw themselves are told apart from the errors that come out of
  the external libraries (the tensor runtime and the pretrained models), which carry the
  library's message.
\<close>

datatype error =
    NoExampleInAnyClass
  | NoInputImageProvided
  | TypeError
  | LibraryError string

text \<open>
  An asynchronous computation is modelled by how it settles. \<open>Pending\<close> is a promise that
  never settles.
\<close>

datatype 'a promise = Pending | Rejected error | Resolved 'a

text \<open>What a call into an external library does: it never answers, it fails, or it returns.\<close>

datatype 'a external = Never | Fails string | Returns 'a

fun await :: "'a external \<Rightarrow> 'a promise" where
  "await Never = Pending"
| "await (Fails msg) = Rejected (LibraryError msg)"
| "await (Returns v) = Resolved v"

text \<open>\<^verbatim>\<open>p.then(k)\<close>, also the rest of an async function after \<^verbatim>\<open>await p\<close>.\<close>

fun and_then :: "'a promise \<Rightarrow> ('a \<Rightarrow> 'b promise) \<Rightarrow> 'b promise" where
  "and_then Pending k = Pending"
| "and_then (Rejected e) k = Rejected e"
| "and_then (Resolved v) k = k v"

text \<open>
  One invocation of a callback: the function called, and the arguments \<^verbatim>\<open>(error, result)\<close>
  it was called with.
\<close>

datatype 'a cb_call = CbCall nat "error option" "'a option"

text \<open>
  Modelled from the spec: \<^verbatim>\<open>utils/callcallback\<close> is imported by every wrapper and is not
  among the sources. The spec says the operations accept either callbacks or promises
  and end in "callback/promise resolution": when a callback function is given it is
  called, error first, with how the promise settled, and the promise is returned
  either way.
\<close>

definition callCallback :: "'a promise \<Rightarrow> jsval \<Rightarrow> 'a promise \<times> 'a cb_call list" where
  "callCallback promise callback =
     (promise,
      case callback of
        JFunction f \<Rightarrow>
          (case promise of
             Pending \<Rightarrow> []
           | Rejected e \<Rightarrow> [CbCall f (Some e) None]
           | Resolved v \<Rightarrow> [CbCall f None (Some v)])
      | _ \<Rightarrow> [])"

section \<open>KNNClassifier\<close>

text \<open>
  Class KNN keeps the external classifier object and the array \<^verbatim>\<open>mapStringToIndex\<close> of the
  string labels seen so far. The external classifier's state is the type parameter; its
  methods and \<^verbatim>\<open>tf.tensor\<close> are parameters of the operations that call them. A synchronous
  library call is taken to return; an awaited one may also fail or never answer.
\<close>

record 'c KNN =
  knnClassifier :: 'c
  mapStringToIndex :: "string list"

text \<open>\<^verbatim>\<open>constructor() { this.knnClassifier = knnClassifier.create(); this.mapStringToIndex = []; }\<close>\<close>

definition KNN_new :: "'c \<Rightarrow> 'c KNN" where
  "KNN_new created = \<lparr>knnClassifier = created, mapStringToIndex = []\<rparr>"

text \<open>The \<^verbatim>\<open>input\<close> argument: an array, which is turned into a tensor, or anything else.\<close>

datatype 'ex input = ArrayInput "jsval list" | OtherInput 'ex

text \<open>\<^verbatim>\<open>array.indexOf(v)\<close> for a value that the array includes.\<close>

fun indexOf :: "string list \<Rightarrow> string \<Rightarrow> nat" where
  "indexOf [] v = 0"
| "indexOf (a # as) v = (if a = v then 0 else Suc (indexOf as v))"

text \<open>
  \<^verbatim>\<open>addExample(input, classIndexOrLabel)\<close>. The second branch compares the argument itself
  with the string \<^verbatim>\<open>'number'\<close>, as the source does.
\<close>

definition addExample ::
  "(jsval list \<Rightarrow> 'ex) \<Rightarrow> ('c \<Rightarrow> 'ex \<Rightarrow> jsval \<Rightarrow> 'c) \<Rightarrow> 'c KNN \<Rightarrow> 'ex input \<Rightarrow> jsval \<Rightarrow> 'c KNN" where
  "addExample tensor lib_addExample this input classIndexOrLabel =
     (let (labels, classIndex) =
            (case classIndexOrLabel of
               JString l \<Rightarrow>
                 if l \<notin> set (mapStringToIndex this)
                 then (mapStringToIndex this @ [l],
                       JNumber (Fin (of_nat (length (mapStringToIndex this @ [l])) - 1)))
                 else (mapStringToIndex this,
                       JNumber (Fin (of_nat (indexOf (mapStringToIndex this) l))))
             | _ \<Rightarrow>
                 if classIndexOrLabel = JString ''number''
                 then (mapStringToIndex this, classIndexOrLabel)
                 else (mapStringToIndex this, JUndefined));
          example = (case input of ArrayInput a \<Rightarrow> tensor a | OtherInput t \<Rightarrow> t)
      in \<lparr>knnClassifier = lib_addExample (knnClassifier this) example classIndex,
          mapStringToIndex = labels\<rparr>)"

text \<open>A sequence of \<^verbatim>\<open>addExample\<close> calls with string labels, given by their arguments.\<close>

definition addExamples ::
  "(jsval list \<Rightarrow> 'ex) \<Rightarrow> ('c \<Rightarrow> 'ex \<Rightarrow> jsval \<Rightarrow> 'c) \<Rightarrow> 'c KNN \<Rightarrow> ('ex input \<times> string) list \<Rightarrow> 'c KNN" where
  "addExamples tensor lib_addExample this calls =
     foldl (\<lambda>s (input, l). addExample tensor lib_addExample s input (JString l)) this calls"

text \<open>The distinct elements of a list in the order of their first appearance.\<close>

fun first_appearances :: "'a list \<Rightarrow> 'a list" where
  "first_appearances [] = []"
| "first_appearances (a # as) = a # first_appearances (filter (\<lambda>b. b \<noteq> a) as)"

text \<open>\<^verbatim>\<open>clearAllLabels() { this.mapStringToIndex = []; this.knnClassifier.clearAllClasses(); }\<close>\<close>

definition clearAllLabels :: "('c \<Rightarrow> 'c) \<Rightarrow> 'c KNN \<Rightarrow> 'c KNN" where
  "clearAllLabels clearAllClasses this =
     \<lparr>knnClassifier = clearAllClasses (knnClassifier this), mapStringToIndex = []\<rparr>"

text \<open>
  \<^verbatim>\<open>clearLabel(labelIndex)\<close>: only the external classifier is touched; the label array keeps
  its entries.
\<close>

definition clearLabel :: "('c \<Rightarrow> jsval \<Rightarrow> 'c) \<Rightarrow> 'c KNN \<Rightarrow> jsval \<Rightarrow> 'c KNN" where
  "clearLabel clearClass this labelIndex =
     (let classIndex =
            (case labelIndex of
               JString l \<Rightarrow>
                 if l \<in> set (mapStringToIndex this)
                 then JNumber (Fin (of_nat (indexOf (mapStringToIndex this) l)))
                 else JUndefined
             | _ \<Rightarrow> labelIndex)
      in this\<lparr>knnClassifier := clearClass (knnClassifier this) classIndex\<rparr>)"

text \<open>
  What \<^verbatim>\<open>predictClass\<close> resolves to, with the two properties \<^verbatim>\<open>classifyInternal\<close> may add.
  \<^verbatim>\<open>confidences\<close> is keyed by class index; \<^verbatim>\<open>confidencesByLabel\<close> by label.
\<close>

record knn_result =
  classIndex :: jsval
  label :: jsval
  confidences :: "(nat \<times> jsnum) list option"
  confidencesByLabel :: "(string \<rightharpoonup> jsnum) option"

text \<open>\<^verbatim>\<open>q\<close> is a natural number.\<close>

definition is_index :: "rat \<Rightarrow> bool" where
  "is_index q = (0 \<le> q \<and> q = of_int \<lfloor>q\<rfloor>)"

text \<open>
  \<^verbatim>\<open>this.mapStringToIndex[i]\<close> for a number \<^verbatim>\<open>i\<close>: the entry, or \<^verbatim>\<open>undefined\<close> outside the array.
\<close>

fun label_at :: "string list \<Rightarrow> jsval \<Rightarrow> jsval" where
  "label_at m (JNumber (Fin q)) =
     (if is_index q \<and> nat \<lfloor>q\<rfloor> < length m then JString (m ! nat \<lfloor>q\<rfloor>) else JUndefined)"
| "label_at m _ = JUndefined"

text \<open>The property key that \<^verbatim>\<open>res['confidencesByLabel'][label] = ...\<close> writes.\<close>

definition label_key :: "string list \<Rightarrow> nat \<Rightarrow> string" where
  "label_key m i = (if i < length m then m ! i else ''undefined'')"

definition classifyInternal ::
  "('c \<Rightarrow> nat) \<Rightarrow> ('c \<Rightarrow> 'ex \<Rightarrow> jsval \<Rightarrow> 'c \<times> knn_result external) \<Rightarrow>
   'c KNN \<Rightarrow> 'ex \<Rightarrow> jsval \<Rightarrow> 'c KNN \<times> knn_result promise" where
  "classifyInternal getNumClasses predictClass this input k =
     (let numClass = getNumClasses (knnClassifier this)
      in if numClass \<le> 0 then (this, Rejected NoExampleInAnyClass)
         else
           (let (c, answer) = predictClass (knnClassifier this) input k
            in (this\<lparr>knnClassifier := c\<rparr>,
                and_then (await answer) (\<lambda>res.
                  if length (mapStringToIndex this) > 0 then
                    (let res1 =
                           (if truthy (classIndex res) \<or> classIndex res = JNumber (Fin 0) then
                              (let lbl = label_at (mapStringToIndex this) (classIndex res)
                               in if truthy lbl then res\<lparr>label := lbl\<rparr> else res)
                            else res);
                         res2 =
                           (case confidences res1 of
                              Some cs \<Rightarrow>
                                res1\<lparr>confidencesByLabel :=
                                  Some (fold (\<lambda>(index, c) byLabel.
                                          byLabel(label_key (mapStringToIndex this) index \<mapsto> c))
                                        cs Map.empty)\<rparr>
                            | None \<Rightarrow> res1)
                     in Resolved res2)
                  else Resolved res))))"

text \<open>
  \<^verbatim>\<open>classify(input, kOrCallback, cb)\<close>: the state afterwards, the promise returned and the
  callback invocations made.
\<close>

definition classify ::
  "(jsval list \<Rightarrow> 'ex) \<Rightarrow> ('c \<Rightarrow> nat) \<Rightarrow> ('c \<Rightarrow> 'ex \<Rightarrow> jsval \<Rightarrow> 'c \<times> knn_result external) \<Rightarrow>
   'c KNN \<Rightarrow> 'ex input \<Rightarrow> jsval \<Rightarrow> jsval \<Rightarrow>
   'c KNN \<times> knn_result promise \<times> knn_result cb_call list" where
  "classify tensor getNumClasses predictClass this input kOrCallback cb =
     (let k = (if typeof kOrCallback = ''number'' then kOrCallback else JNumber (Fin 3));
          callback =
            (if typeof kOrCallback = ''number'' then cb
             else if typeof kOrCallback = ''function'' then kOrCallback
             else cb);
          example = (case input of ArrayInput a \<Rightarrow> tensor a | OtherInput t \<Rightarrow> t);
          (this', p) = classifyInternal getNumClasses predictClass this example k
      in (this', callCallback p callback))"

subsection \<open>The external k-NN classifier\<close>

text \<open>
  Modelled from the spec: the k-NN classifier is an externally supplied algorithm, not
  among the sources. The glossary says it "classifies a new embedding vector by majority
  vote among its k closest stored labeled examples". The store is the list of labelled
  examples in the order they were added; closeness is any distance function \<open>distance\<close>; an
  example added earlier wins a tie in distance, and the class met first among the
  neighbours wins a tie in votes. A \<open>k\<close> that is not a natural number, or an empty
  neighbourhood, makes the prediction fail.
\<close>

type_synonym 'ex knn_store = "(nat \<times> 'ex) list"

definition knn_getNumClasses :: "'ex knn_store \<Rightarrow> nat" where
  "knn_getNumClasses store = length (remdups (map fst store))"

definition k_closest :: "('ex \<Rightarrow> 'ex \<Rightarrow> rat) \<Rightarrow> 'ex knn_store \<Rightarrow> 'ex \<Rightarrow> nat \<Rightarrow> (nat \<times> 'ex) list" where
  "k_closest distance store query k = take k (sort_key (\<lambda>e. distance query (snd e)) store)"

definition votes :: "(nat \<times> 'ex) list \<Rightarrow> nat \<Rightarrow> nat" where
  "votes neighbours cls = length (filter (\<lambda>e. fst e = cls) neighbours)"

fun most_voted :: "(nat \<Rightarrow> nat) \<Rightarrow> nat list \<Rightarrow> nat \<Rightarrow> nat" where
  "most_voted v [] best = best"
| "most_voted v (c # cs) best = most_voted v cs (if v best < v c then c else best)"

fun k_of :: "jsval \<Rightarrow> nat option" where
  "k_of (JNumber (Fin q)) = (if is_index q then Some (nat \<lfloor>q\<rfloor>) else None)"
| "k_of _ = None"

definition knn_predictClass ::
  "('ex \<Rightarrow> 'ex \<Rightarrow> rat) \<Rightarrow> 'ex knn_store \<Rightarrow> 'ex \<Rightarrow> jsval \<Rightarrow> 'ex knn_store \<times> knn_result external" where
  "knn_predictClass distance store query k =
     (store,
      case k_of k of
        None \<Rightarrow> Fails ''k is not a natural number''
      | Some n \<Rightarrow>
          (case k_closest distance store query n of
             [] \<Rightarrow> Fails ''no neighbours''
           | e # es \<Rightarrow>
               Returns
                 \<lparr>classIndex =
                    JNumber (Fin (of_nat (most_voted (votes (e # es)) (map fst es) (fst e)))),
                  label = JUndefined,
                  confidences =
                    Some (map (\<lambda>cls. (cls, Fin (of_nat (votes (e # es) cls) / of_nat (length (e # es)))))
                           (sort (remdups (map fst store)))),
                  confidencesByLabel = None\<rparr>))"

section \<open>CocoSsd\<close>

text \<open>
  The subject of a detection, as far as \<^verbatim>\<open>detect\<close> reads it, and one prediction of the
  external detector model (\<^verbatim>\<open>class\<close> is written \<open>class_name\<close>). The formatted prediction
  has the properties \<^verbatim>\<open>label\<close>, \<^verbatim>\<open>confidence\<close>, \<^verbatim>\<open>x\<close>, \<^verbatim>\<open>y\<close>, \<^verbatim>\<open>w\<close>, \<^verbatim>\<open>h\<close>, written here with the
  prefix \<open>det_\<close>.
\<close>

record subject =
  width :: jsnum
  height :: jsnum

record prediction =
  bbox :: "jsnum list"
  class_name :: string
  score :: jsnum

record detection =
  det_label :: string
  det_confidence :: jsnum
  det_x :: jsnum
  det_y :: jsnum
  det_w :: jsnum
  det_h :: jsnum

text \<open>
  \<^verbatim>\<open>prediction.bbox[i]\<close> as an operand of a division: outside the array it is \<^verbatim>\<open>undefined\<close>,
  which the division reads as NaN.
\<close>

definition bbox_at :: "jsnum list \<Rightarrow> nat \<Rightarrow> jsnum" where
  "bbox_at b i = (if i < length b then b ! i else NaN)"

text \<open>
  The loop \<^verbatim>\<open>for (let i = 0; i < predictions.length; i += 1) { ... formattedPredictions.push({...}) }\<close>.
\<close>

function format_loop :: "subject \<Rightarrow> prediction list \<Rightarrow> nat \<Rightarrow> detection list \<Rightarrow> detection list" where
  "format_loop subj predictions i formattedPredictions =
     (if i < length predictions then
        (let prediction = predictions ! i
         in format_loop subj predictions (i + 1)
              (formattedPredictions @
                 [\<lparr>det_label = class_name prediction,
                   det_confidence = score prediction,
                   det_x = js_div (bbox_at (bbox prediction) 0) (width subj),
                   det_y = js_div (bbox_at (bbox prediction) 1) (height subj),
                   det_w = js_div (bbox_at (bbox prediction) 2) (width subj),
                   det_h = js_div (bbox_at (bbox prediction) 3) (height subj)\<rparr>]))
      else formattedPredictions)"
  by pat_completeness auto
termination
  by (relation "measure (\<lambda>(subj, predictions, i, acc). length predictions - i)") auto

declare format_loop.simps [simp del]

text \<open>
  \<^verbatim>\<open>detect(subject, callback)\<close>. \<open>ready\<close> is how \<^verbatim>\<open>this.ready\<close> (the loading of the model)
  settles and \<open>cocoSsdModel_detect\<close> is the external model's \<^verbatim>\<open>detect\<close>. The result is the
  promise returned and the callback invocations made.
\<close>

definition detect ::
  "unit promise \<Rightarrow> (subject \<Rightarrow> prediction list external) \<Rightarrow> subject \<Rightarrow> jsval \<Rightarrow>
   detection list promise \<times> detection list cb_call list" where
  "detect ready cocoSsdModel_detect subj callback =
     (case ready of
        Pending \<Rightarrow> (Pending, [])
      | Rejected e \<Rightarrow> (Rejected e, [])
      | Resolved _ \<Rightarrow>
          (case await (cocoSsdModel_detect subj) of
             Pending \<Rightarrow> (Pending, [])
           | Rejected e \<Rightarrow> (Rejected e, [])
           | Resolved predictions \<Rightarrow>
               callCallback (Resolved (format_loop subj predictions 0 [])) callback))"

section \<open>BodyPix\<close>

record bp_config =
  multiplier :: jsval
  outputStride :: jsval
  segmentationThreshold :: jsval
  palette :: jsval

text \<open>
  \<^verbatim>\<open>DEFAULTS\<close>. The palette constant \<^verbatim>\<open>BODYPIX_PALETTE\<close> is imported from a file that is not
  among the sources and is a parameter.
\<close>

definition DEFAULTS :: "jsval \<Rightarrow> bp_config" where
  "DEFAULTS BODYPIX_PALETTE =
     \<lparr>multiplier = JNumber (Fin (3 / 4)),
      outputStride = JNumber (Fin 16),
      segmentationThreshold = JNumber (Fin (1 / 2)),
      palette = BODYPIX_PALETTE\<rparr>"

text \<open>
  The fields of a BodyPix object that \<^verbatim>\<open>segment\<close> reads and writes. \<open>video\<close> is the
  HTMLVideoElement given to the constructor, if one was given.
\<close>

record BodyPix =
  video :: "nat option"
  config :: bp_config

text \<open>
  The constructor: \<^verbatim>\<open>this.config = { multiplier: options.multiplier || DEFAULTS.multiplier, ... }\<close>.
  Reading a property of an \<^verbatim>\<open>options\<close> that is \<^verbatim>\<open>undefined\<close> or \<^verbatim>\<open>null\<close> throws.
\<close>

definition BodyPix_new :: "jsval \<Rightarrow> nat option \<Rightarrow> jsval \<Rightarrow> error + BodyPix" where
  "BodyPix_new BODYPIX_PALETTE vid options =
     (if nullish options then Inl TypeError
      else Inr
        \<lparr>video = vid,
         config =
           \<lparr>multiplier = js_or (prop_of options ''multiplier'') (multiplier (DEFAULTS BODYPIX_PALETTE)),
            outputStride = js_or (prop_of options ''outputStride'') (outputStride (DEFAULTS BODYPIX_PALETTE)),
            segmentationThreshold =
              js_or (prop_of options ''segmentationThreshold'')
                (segmentationThreshold (DEFAULTS BODYPIX_PALETTE)),
            palette = js_or (prop_of options ''palette'') (palette (DEFAULTS BODYPIX_PALETTE))\<rparr>\<rparr>)"

text \<open>\<^verbatim>\<open>this.video\<close> and \<^verbatim>\<open>this.config\<close> as values.\<close>

definition video_value :: "BodyPix \<Rightarrow> jsval" where
  "video_value this = (case video this of None \<Rightarrow> JUndefined | Some n \<Rightarrow> JElement (HTMLVideoElement n))"

definition config_value :: "bp_config \<Rightarrow> jsval" where
  "config_value c =
     JObject [(''multiplier'', multiplier c), (''outputStride'', outputStride c),
              (''segmentationThreshold'', segmentationThreshold c), (''palette'', palette c)]"

text \<open>
  What \<^verbatim>\<open>segment\<close> depends on outside its arguments: how \<^verbatim>\<open>this.ready\<close> settles, the state
  of the constructor's video, the external model and mask functions, and the p5 helpers.
\<close>

record ('seg, 'img, 'blob) bodypix_env =
  model_ready :: "unit promise"
  video_readyState :: nat
  video_loadeddata :: bool
  estimatePersonSegmentation :: "jsval \<Rightarrow> jsval \<Rightarrow> jsval \<Rightarrow> 'seg external"
  toMaskImageData :: "'seg \<Rightarrow> bool \<Rightarrow> 'img"
  checkP5 :: bool
  rawToBlob :: "'img \<Rightarrow> 'seg \<Rightarrow> 'blob external"
  blobToP5Image :: "'blob \<Rightarrow> 'img external"

record ('seg, 'img) segment_result =
  maskBackground :: 'img
  maskPerson :: 'img
  raw :: 'seg

text \<open>
  \<^verbatim>\<open>segmentInternal(imgToSegment, segmentationOptions)\<close>: the object afterwards and the promise.
  When the constructor's video has no data yet the function waits for its \<^verbatim>\<open>loadeddata\<close>
  event. \<^verbatim>\<open>tf.nextFrame()\<close> is taken to resolve.
\<close>

definition segmentInternal ::
  "('seg, 'img, 'blob) bodypix_env \<Rightarrow> BodyPix \<Rightarrow> jsval \<Rightarrow> jsval \<Rightarrow>
   BodyPix \<times> ('seg, 'img) segment_result promise" where
  "segmentInternal env this imgToSegment segmentationOptions =
     (case model_ready env of
        Pending \<Rightarrow> (this, Pending)
      | Rejected e \<Rightarrow> (this, Rejected e)
      | Resolved _ \<Rightarrow>
          if video this \<noteq> None \<and> video_readyState env = 0 \<and> \<not> video_loadeddata env
          then (this, Pending)
          else if nullish segmentationOptions then (this, Rejected TypeError)
          else
            (let config1 = (config this)
                   \<lparr>outputStride :=
                      js_or (prop_of segmentationOptions ''outputStride'') (outputStride (config this))\<rparr>;
                 config2 = config1
                   \<lparr>segmentationThreshold :=
                      js_or (prop_of segmentationOptions ''segmentationThreshold'')
                        (segmentationThreshold config1)\<rparr>
             in (this\<lparr>config := config2\<rparr>,
                 and_then
                   (await (estimatePersonSegmentation env imgToSegment
                             (outputStride config2) (segmentationThreshold config2)))
                   (\<lambda>segmentation.
                      if checkP5 env then
                        and_then (await (rawToBlob env (toMaskImageData env segmentation True) segmentation))
                          (\<lambda>blob1.
                        and_then (await (rawToBlob env (toMaskImageData env segmentation False) segmentation))
                          (\<lambda>blob2.
                        and_then (await (blobToP5Image env blob1)) (\<lambda>p5Image1.
                        and_then (await (blobToP5Image env blob2)) (\<lambda>p5Image2.
                          Resolved
                            \<lparr>maskBackground = p5Image1, maskPerson = p5Image2,
                             raw = segmentation\<rparr>))))
                      else
                        Resolved
                          \<lparr>maskBackground = toMaskImageData env segmentation True,
                           maskPerson = toMaskImageData env segmentation False,
                           raw = segmentation\<rparr>))))"

text \<open>
  The first part of \<^verbatim>\<open>segment\<close>, "Handle the image to predict": the image to segment and
  the callback found so far, or the error thrown. \<^verbatim>\<open>typeof null\<close> is \<^verbatim>\<open>'object'\<close>, so for
  \<^verbatim>\<open>null\<close> the third test reads \<^verbatim>\<open>null.elt\<close>, which throws a TypeError.
\<close>

definition segment_input :: "BodyPix \<Rightarrow> jsval \<Rightarrow> error + jsval \<times> jsval" where
  "segment_input this optionsOrCallback =
     (if typeof optionsOrCallback = ''function'' then Inr (video_value this, optionsOrCallback)
      else if instanceof_HTMLImageElement optionsOrCallback
             \<or> instanceof_HTMLCanvasElement optionsOrCallback
             \<or> instanceof_HTMLVideoElement optionsOrCallback
             \<or> instanceof_ImageData optionsOrCallback
      then Inr (optionsOrCallback, JUndefined)
      else if optionsOrCallback = JNull then Inl TypeError
      else if typeof optionsOrCallback = ''object''
             \<and> (instanceof_HTMLImageElement (prop_of optionsOrCallback ''elt'')
                  \<or> instanceof_HTMLCanvasElement (prop_of optionsOrCallback ''elt'')
                  \<or> instanceof_ImageData (prop_of optionsOrCallback ''elt''))
      then Inr (prop_of optionsOrCallback ''elt'', JUndefined)
      else if typeof optionsOrCallback = ''object''
             \<and> instanceof_HTMLCanvasElement (prop_of optionsOrCallback ''canvas'')
      then Inr (prop_of optionsOrCallback ''canvas'', JUndefined)
      else if typeof optionsOrCallback = ''object''
             \<and> instanceof_HTMLVideoElement (prop_of optionsOrCallback ''elt'')
      then Inr (prop_of optionsOrCallback ''elt'', JUndefined)
      else if \<not> instanceof_HTMLVideoElement (video_value this) then Inl NoInputImageProvided
      else Inr (video_value this, JUndefined))"

text \<open>
  \<^verbatim>\<open>segment(optionsOrCallback, configOrCallback, cb)\<close>: the object afterwards, the promise
  returned and the callback invocations made. A throw in the first part rejects the
  promise of the async function before \<^verbatim>\<open>callCallback\<close> is reached.
\<close>

definition segment ::
  "('seg, 'img, 'blob) bodypix_env \<Rightarrow> BodyPix \<Rightarrow> jsval \<Rightarrow> jsval \<Rightarrow> jsval \<Rightarrow>
   BodyPix \<times> ('seg, 'img) segment_result promise \<times> ('seg, 'img) segment_result cb_call list" where
  "segment env this optionsOrCallback configOrCallback cb =
     (case segment_input this optionsOrCallback of
        Inl e \<Rightarrow> (this, Rejected e, [])
      | Inr (imgToSegment, callback0) \<Rightarrow>
          (let segmentationOptions =
                 (if typeof configOrCallback = ''object'' then configOrCallback
                  else config_value (config this));
               callback1 =
                 (if typeof configOrCallback = ''object'' then callback0
                  else if typeof configOrCallback = ''function'' then configOrCallback
                  else callback0);
               callback = (if typeof cb = ''function'' then cb else callback1);
               (this', p) = segmentInternal env this imgToSegment segmentationOptions
           in (this', callCallback p callback)))"

section \<open>NeuralNetworkData\<close>

text \<open>
  \<^verbatim>\<open>normalizeValue(value, min, max) { return ((value - min) / (max - min)) }\<close> and
  \<^verbatim>\<open>unNormalizeValue(value, min, max) { return ((value * (max - min)) + min) }\<close>.
\<close>

definition normalizeValue :: "jsnum \<Rightarrow> jsnum \<Rightarrow> jsnum \<Rightarrow> jsnum" where
  "normalizeValue v mn mx = js_div (js_sub v mn) (js_sub mx mn)"

definition unNormalizeValue :: "jsnum \<Rightarrow> jsnum \<Rightarrow> jsnum \<Rightarrow> jsnum" where
  "unNormalizeValue v mn mx = js_add (js_mul v (js_sub mx mn)) mn"

text \<open>Class NeuralNetwork has its own \<^verbatim>\<open>unNormalizeValue\<close>, with the same body.\<close>

definition NeuralNetwork_unNormalizeValue :: "jsnum \<Rightarrow> jsnum \<Rightarrow> jsnum \<Rightarrow> jsnum" where
  "NeuralNetwork_unNormalizeValue v mn mx = js_add (js_mul v (js_sub mx mn)) mn"


















section \<open>What the specification says, and concrete instances\<close>

text \<open>
  "A callback function that is supplied is invoked with the outcome": the invocations of
  the callback \<open>f\<close> expected for a promise, one call with the error or with the result once
  the promise has settled.
\<close>

definition delivered :: "nat \<Rightarrow> 'a promise \<Rightarrow> 'a cb_call list" where
  "delivered f p =
     (case p of
        Pending \<Rightarrow> []
      | Rejected e \<Rightarrow> [CbCall f (Some e) None]
      | Resolved v \<Rightarrow> [CbCall f None (Some v)])"

text \<open>The callback that a call of \<^verbatim>\<open>segment\<close> supplies, looking at the last argument first.\<close>

definition supplied_callback :: "jsval \<Rightarrow> jsval \<Rightarrow> jsval \<Rightarrow> jsval" where
  "supplied_callback optionsOrCallback configOrCallback cb =
     (if typeof cb = ''function'' then cb
      else if typeof configOrCallback = ''function'' then configOrCallback
      else if typeof optionsOrCallback = ''function'' then optionsOrCallback
      else JUndefined)"

text \<open>
  "The defaults overridden field by field by the values present in the options object":
  a field of the options object wins whenever the object has it.
\<close>

definition overridden :: "(string \<times> jsval) list \<Rightarrow> string \<Rightarrow> jsval \<Rightarrow> jsval" where
  "overridden given name fallback = (case map_of given name of None \<Rightarrow> fallback | Some v \<Rightarrow> v)"

definition merged_config :: "bp_config \<Rightarrow> (string \<times> jsval) list \<Rightarrow> bp_config" where
  "merged_config defaults given =
     \<lparr>multiplier = overridden given ''multiplier'' (multiplier defaults),
      outputStride = overridden given ''outputStride'' (outputStride defaults),
      segmentationThreshold = overridden given ''segmentationThreshold'' (segmentationThreshold defaults),
      palette = overridden given ''palette'' (palette defaults)\<rparr>"

text \<open>
  An environment for examples: the model is loaded, segmentations, images and blobs are
  numbers, and p5 is present.
\<close>

definition example_env :: "(nat, nat, nat) bodypix_env" where
  "example_env =
     \<lparr>model_ready = Resolved (),
      video_readyState = 4,
      video_loadeddata = True,
      estimatePersonSegmentation = (\<lambda>img stride threshold. Returns 7),
      toMaskImageData = (\<lambda>seg background. if background then seg + 1 else seg + 2),
      checkP5 = True,
      rawToBlob = (\<lambda>img seg. Returns (img * 10)),
      blobToP5Image = (\<lambda>blob. Returns (blob + 100))\<rparr>"






definition example_BodyPix :: BodyPix where
  "example_BodyPix = \<lparr>video = None, config = DEFAULTS (JObject [])\<rparr>"

section \<open>Helper facts\<close>

lemma await_never_own_error:
  assumes "\<And>r. \<exists>v. k r = Resolved v"
  shows "and_then (await a) k \<noteq> Rejected NoExampleInAnyClass"
    and "and_then (await a) k \<noteq> Rejected NoInputImageProvided"
proof -
  have "and_then (await a) k \<noteq> Rejected NoExampleInAnyClass
      \<and> and_then (await a) k \<noteq> Rejected NoInputImageProvided"
  proof (cases a)
    case Never
    then show ?thesis by simp
  next
    case (Fails msg)
    then show ?thesis by simp
  next
    case (Returns r)
    obtain v where "k r = Resolved v" using assms by blast
    with Returns show ?thesis by simp
  qed
  then show "and_then (await a) k \<noteq> Rejected NoExampleInAnyClass"
    and "and_then (await a) k \<noteq> Rejected NoInputImageProvided" by simp_all
qed

section \<open>NeuralNetworkData: round trip of scaling\<close>

text \<open>
  Claim C10. For every value and every pair min, max with min distinct from max,
  un-normalising the normalised value gives the value back, and normalising the
  un-normalised value gives the value back, over exact rational arithmetic. The copy of
  unNormalizeValue in class NeuralNetwork behaves the same.
\<close>

theorem normalize_roundtrip:
  assumes "mn \<noteq> mx"
  shows "unNormalizeValue (normalizeValue (Fin v) (Fin mn) (Fin mx)) (Fin mn) (Fin mx) = Fin v
       \<and> normalizeValue (unNormalizeValue (Fin v) (Fin mn) (Fin mx)) (Fin mn) (Fin mx) = Fin v
       \<and> NeuralNetwork_unNormalizeValue (normalizeValue (Fin v) (Fin mn) (Fin mx)) (Fin mn) (Fin mx) = Fin v
       \<and> normalizeValue (NeuralNetwork_unNormalizeValue (Fin v) (Fin mn) (Fin mx)) (Fin mn) (Fin mx) = Fin v"
  using assms
  by (simp add: normalizeValue_def unNormalizeValue_def NeuralNetwork_unNormalizeValue_def js_sub_def)

theorem normalize_roundtrip_witness:
  "(2::rat) \<noteq> 12
   \<and> unNormalizeValue (normalizeValue (Fin 7) (Fin 2) (Fin 12)) (Fin 2) (Fin 12) = Fin 7
   \<and> normalizeValue (unNormalizeValue (Fin 7) (Fin 2) (Fin 12)) (Fin 2) (Fin 12) = Fin 7
   \<and> NeuralNetwork_unNormalizeValue (normalizeValue (Fin 7) (Fin 2) (Fin 12)) (Fin 2) (Fin 12) = Fin 7
   \<and> normalizeValue (NeuralNetwork_unNormalizeValue (Fin 7) (Fin 2) (Fin 12)) (Fin 2) (Fin 12) = Fin 7"
  using normalize_roundtrip [of 2 12 7] by simp

section \<open>CocoSsd: the formatted predictions\<close>

lemma format_loop_eq:
  "format_loop subj ps i acc =
     acc @ map (\<lambda>p. \<lparr>det_label = class_name p, det_confidence = score p,
                     det_x = js_div (bbox_at (bbox p) 0) (width subj),
                     det_y = js_div (bbox_at (bbox p) 1) (height subj),
                     det_w = js_div (bbox_at (bbox p) 2) (width subj),
                     det_h = js_div (bbox_at (bbox p) 3) (height subj)\<rparr>) (drop i ps)"
proof (induction subj ps i acc rule: format_loop.induct)
  case (1 subj ps i acc)
  show ?case
  proof -
    { assume lt: "i < length ps"
      have "drop i ps = ps ! i # drop (Suc i) ps"
        using lt by (simp add: Cons_nth_drop_Suc)
      with lt 1 have ?thesis
        by (subst format_loop.simps) (simp add: Let_def) }
    moreover
    { assume "\<not> i < length ps"
      then have ?thesis by (subst format_loop.simps) simp }
    ultimately show ?thesis by blast
  qed
qed

text \<open>
  Claim C3. When the model is loaded and the detector model returns a list of predictions,
  detect resolves to a list of the same length in the same order, whose i-th element has
  the i-th prediction's class as label, its score as confidence, and as x, y, w, h the
  entries 0 to 3 of its bbox divided by the subject's width (x and w) and height (y and h).
\<close>

theorem detect_formats_predictions:
  assumes "ready = Resolved u" and "cocoSsdModel_detect subj = Returns predictions"
  shows "\<exists>ds. fst (detect ready cocoSsdModel_detect subj callback) = Resolved ds
            \<and> length ds = length predictions
            \<and> (\<forall>i < length predictions.
                  det_label (ds ! i) = class_name (predictions ! i)
                \<and> det_confidence (ds ! i) = score (predictions ! i)
                \<and> det_x (ds ! i) = js_div (bbox_at (bbox (predictions ! i)) 0) (width subj)
                \<and> det_y (ds ! i) = js_div (bbox_at (bbox (predictions ! i)) 1) (height subj)
                \<and> det_w (ds ! i) = js_div (bbox_at (bbox (predictions ! i)) 2) (width subj)
                \<and> det_h (ds ! i) = js_div (bbox_at (bbox (predictions ! i)) 3) (height subj))"
  using assms
  by (simp add: detect_def callCallback_def format_loop_eq)


theorem detect_formats_predictions_witness:
  "\<exists>ds. fst (detect (Resolved ())
               (\<lambda>s. Returns [\<lparr>bbox = [Fin 10, Fin 20, Fin 30, Fin 40], class_name = ''cat'',
                               score = Fin (9 / 10)\<rparr>])
               \<lparr>width = Fin 100, height = Fin 200\<rparr> JUndefined) = Resolved ds
      \<and> length ds = 1
      \<and> det_label (ds ! 0) = ''cat''
      \<and> det_confidence (ds ! 0) = Fin (9 / 10)
      \<and> det_x (ds ! 0) = Fin (1 / 10)
      \<and> det_y (ds ! 0) = Fin (1 / 10)
      \<and> det_w (ds ! 0) = Fin (3 / 10)
      \<and> det_h (ds ! 0) = Fin (1 / 5)"
  using detect_formats_predictions
    [where ready = "Resolved ()" and u = "()"
       and cocoSsdModel_detect =
         "\<lambda>s. Returns [\<lparr>bbox = [Fin 10, Fin 20, Fin 30, Fin 40], class_name = ''cat'',
                         score = Fin (9 / 10)\<rparr>]"
       and subj = "\<lparr>width = Fin 100, height = Fin 200\<rparr>"
       and predictions =
         "[\<lparr>bbox = [Fin 10, Fin 20, Fin 30, Fin 40], class_name = ''cat'', score = Fin (9 / 10)\<rparr>]"
       and callback = JUndefined]
  by (simp add: bbox_at_def)

section \<open>KNNClassifier: the label array\<close>

lemma addExample_labels:
  "mapStringToIndex (addExample tensor lib this input (JString l)) =
     (if l \<in> set (mapStringToIndex this) then mapStringToIndex this else mapStringToIndex this @ [l])"
  by (simp add: addExample_def Let_def)

lemma indexOf_append:
  "indexOf (m @ [l]) v = (if v \<in> set m then indexOf m v else if v = l then length m else Suc (length m))"
  by (induction m) auto

lemma indexOf_nth: "v \<in> set m \<Longrightarrow> m ! indexOf m v = v \<and> indexOf m v < length m"
  by (induction m) auto

lemma addExample_classIndex:
  "knnClassifier (addExample tensor lib this input (JString l)) =
     lib (knnClassifier this) (case input of ArrayInput a \<Rightarrow> tensor a | OtherInput t \<Rightarrow> t)
       (JNumber (Fin (of_nat (indexOf (mapStringToIndex this @ [l]) l))))"
  by (simp add: addExample_def Let_def indexOf_append)

lemma first_appearances_set [simp]: "set (first_appearances ls) = set ls"
  by (induction ls rule: first_appearances.induct) auto

lemma first_appearances_distinct [simp]: "distinct (first_appearances ls)"
  by (induction ls rule: first_appearances.induct) auto

lemma first_appearances_snoc:
  "first_appearances (ls @ [l]) =
     (if l \<in> set ls then first_appearances ls else first_appearances ls @ [l])"
proof (induction ls rule: first_appearances.induct)
  case 1
  show ?case by simp
next
  case (2 a as)
  then show ?case by auto
qed

lemma addExamples_snoc:
  "addExamples tensor lib this (calls @ [(input, l)]) =
     addExample tensor lib (addExamples tensor lib this calls) input (JString l)"
  by (simp add: addExamples_def)

lemma addExamples_labels:
  "mapStringToIndex (addExamples tensor lib (KNN_new created) calls) = first_appearances (map snd calls)"
proof (induction calls rule: rev_induct)
  case Nil
  show ?case by (simp add: addExamples_def KNN_new_def)
next
  case (snoc c calls)
  obtain input l where c: "c = (input, l)" by (cases c)
  show ?case
    using snoc by (simp add: c addExamples_snoc addExample_labels first_appearances_snoc)
qed

lemma clearLabel_labels:
  "mapStringToIndex (clearLabel clearClass this labelIndex) = mapStringToIndex this"
  by (simp add: clearLabel_def Let_def)

text \<open>
  Claim C9. After any sequence of addExample calls with string labels on a new classifier,
  the label array holds each distinct label exactly once, in the order of first
  appearance, so that a label's index is the 0-based order of its first appearance; a
  later addExample with a label already seen hands that same index to the external
  classifier and leaves the array as it is, one with a new label hands over the next
  index; clearAllLabels empties the array.
\<close>

theorem label_map_first_appearance:
  "distinct (mapStringToIndex (addExamples tensor lib (KNN_new created) calls))
   \<and> set (mapStringToIndex (addExamples tensor lib (KNN_new created) calls)) = snd ` set calls
   \<and> mapStringToIndex (addExamples tensor lib (KNN_new created) calls) = first_appearances (map snd calls)
   \<and> (\<forall>l \<in> snd ` set calls. \<forall>input.
         addExample tensor lib (addExamples tensor lib (KNN_new created) calls) input (JString l) =
           \<lparr>knnClassifier =
              lib (knnClassifier (addExamples tensor lib (KNN_new created) calls))
                (case input of ArrayInput a \<Rightarrow> tensor a | OtherInput t \<Rightarrow> t)
                (JNumber (Fin (of_nat (indexOf (first_appearances (map snd calls)) l)))),
            mapStringToIndex = first_appearances (map snd calls)\<rparr>)
   \<and> (\<forall>l input. l \<notin> snd ` set calls \<longrightarrow>
         addExample tensor lib (addExamples tensor lib (KNN_new created) calls) input (JString l) =
           \<lparr>knnClassifier =
              lib (knnClassifier (addExamples tensor lib (KNN_new created) calls))
                (case input of ArrayInput a \<Rightarrow> tensor a | OtherInput t \<Rightarrow> t)
                (JNumber (Fin (of_nat (length (first_appearances (map snd calls)))))),
            mapStringToIndex = first_appearances (map snd calls) @ [l]\<rparr>)
   \<and> mapStringToIndex (clearAllLabels clearAllClasses (addExamples tensor lib (KNN_new created) calls)) = []"
proof -
  define S where "S = addExamples tensor lib (KNN_new created) calls"
  have m: "mapStringToIndex S = first_appearances (map snd calls)"
    unfolding S_def by (rule addExamples_labels)
  have seen: "addExample tensor lib S input (JString l) =
      \<lparr>knnClassifier = lib (knnClassifier S) (case input of ArrayInput a \<Rightarrow> tensor a | OtherInput t \<Rightarrow> t)
         (JNumber (Fin (of_nat (indexOf (first_appearances (map snd calls)) l)))),
       mapStringToIndex = first_appearances (map snd calls)\<rparr>"
    if "l \<in> snd ` set calls" for l input
    using that by (simp add: addExample_def m Let_def)
  have fresh: "addExample tensor lib S input (JString l) =
      \<lparr>knnClassifier = lib (knnClassifier S) (case input of ArrayInput a \<Rightarrow> tensor a | OtherInput t \<Rightarrow> t)
         (JNumber (Fin (of_nat (length (first_appearances (map snd calls)))))),
       mapStringToIndex = first_appearances (map snd calls) @ [l]\<rparr>"
    if "l \<notin> snd ` set calls" for l input
    using that by (simp add: addExample_def m Let_def)
  have cleared: "mapStringToIndex (clearAllLabels clearAllClasses S) = []"
    by (simp add: clearAllLabels_def)
  show ?thesis
    unfolding S_def [symmetric] using m seen fresh cleared by simp
qed


theorem label_map_first_appearance_witness:
  "mapStringToIndex
     (addExamples (\<lambda>a. 0) (\<lambda>c ex ci. c @ [ci]) (KNN_new [])
        [(OtherInput (1::nat), ''cat''), (OtherInput 2, ''dog''), (OtherInput 3, ''cat'')])
     = [''cat'', ''dog'']
   \<and> addExample (\<lambda>a. 0) (\<lambda>c ex ci. c @ [ci])
       (addExamples (\<lambda>a. 0) (\<lambda>c ex ci. c @ [ci]) (KNN_new [])
          [(OtherInput (1::nat), ''cat''), (OtherInput 2, ''dog''), (OtherInput 3, ''cat'')])
       (OtherInput 4) (JString ''dog'')
     = \<lparr>knnClassifier = [JNumber (Fin 0), JNumber (Fin 1), JNumber (Fin 0), JNumber (Fin 1)],
        mapStringToIndex = [''cat'', ''dog'']\<rparr>"
  using label_map_first_appearance
    [where tensor = "\<lambda>a. 0" and lib = "\<lambda>c ex ci. c @ [ci]" and created = "[]"
       and calls = "[(OtherInput (1::nat), ''cat''), (OtherInput 2, ''dog''), (OtherInput 3, ''cat'')]"
       and clearAllClasses = "\<lambda>c. c"]
  by (simp add: addExamples_def addExample_def KNN_new_def)

section \<open>KNNClassifier: classifying with no example\<close>

lemma classifyInternal_no_class:
  "getNumClasses (knnClassifier this) = 0 \<Longrightarrow>
   classifyInternal getNumClasses predictClass this ex k = (this, Rejected NoExampleInAnyClass)"
  by (simp add: classifyInternal_def)

lemma classifyInternal_some_class:
  assumes "getNumClasses (knnClassifier this) \<noteq> 0"
  shows "snd (classifyInternal getNumClasses predictClass this ex k) \<noteq> Rejected NoExampleInAnyClass"
proof -
  obtain c answer where pc: "predictClass (knnClassifier this) ex k = (c, answer)"
    by fastforce
  show ?thesis
    using assms
    by (simp add: classifyInternal_def pc Let_def await_never_own_error(1) split: option.splits)
qed

text \<open>
  Claim C8. classify rejects with the error "There is no example in any class" if and
  only if the external classifier reports zero classes at the time of the call, and a
  call rejected so leaves the classifier object, its stored examples and its label array,
  as it was.
\<close>

theorem classify_rejects_iff_no_class:
  "(fst (snd (classify tensor getNumClasses predictClass this input kOrCallback cb))
      = Rejected NoExampleInAnyClass)
     = (getNumClasses (knnClassifier this) = 0)
   \<and> (fst (snd (classify tensor getNumClasses predictClass this input kOrCallback cb))
         = Rejected NoExampleInAnyClass
       \<longrightarrow> fst (classify tensor getNumClasses predictClass this input kOrCallback cb) = this)"
proof -
  define ex where "ex = (case input of ArrayInput a \<Rightarrow> tensor a | OtherInput t \<Rightarrow> t)"
  define k where "k = (if typeof kOrCallback = ''number'' then kOrCallback else JNumber (Fin 3))"
  have p: "fst (snd (classify tensor getNumClasses predictClass this input kOrCallback cb))
         = snd (classifyInternal getNumClasses predictClass this ex k)"
    by (simp add: classify_def callCallback_def ex_def k_def Let_def split: prod.splits)
  have s: "fst (classify tensor getNumClasses predictClass this input kOrCallback cb)
         = fst (classifyInternal getNumClasses predictClass this ex k)"
    by (simp add: classify_def callCallback_def ex_def k_def Let_def split: prod.splits)
  consider (none) "getNumClasses (knnClassifier this) = 0"
    | (some) "getNumClasses (knnClassifier this) \<noteq> 0" by blast
  then show ?thesis
  proof cases
    case none
    then show ?thesis
      unfolding p s by (simp add: classifyInternal_no_class)
  next
    case some
    then show ?thesis
      unfolding p s using classifyInternal_some_class [of getNumClasses this predictClass ex k]
      by simp
  qed
qed


theorem classify_rejects_iff_no_class_witness:
  "fst (snd (classify (\<lambda>a. 0) length (\<lambda>c ex k. (c, Never))
               \<lparr>knnClassifier = ([] :: nat list), mapStringToIndex = []\<rparr>
               (OtherInput (1::nat)) JUndefined JUndefined))
     = Rejected NoExampleInAnyClass
   \<and> fst (classify (\<lambda>a. 0) length (\<lambda>c ex k. (c, Never))
            \<lparr>knnClassifier = ([] :: nat list), mapStringToIndex = []\<rparr>
            (OtherInput (1::nat)) JUndefined JUndefined)
     = \<lparr>knnClassifier = ([] :: nat list), mapStringToIndex = []\<rparr>
   \<and> fst (snd (classify (\<lambda>a. 0) length (\<lambda>c ex k. (c, Never))
                  \<lparr>knnClassifier = [5 :: nat], mapStringToIndex = []\<rparr>
                  (OtherInput (1::nat)) JUndefined JUndefined))
     \<noteq> Rejected NoExampleInAnyClass"
  using classify_rejects_iff_no_class
      [where tensor = "\<lambda>a. 0" and getNumClasses = length and predictClass = "\<lambda>c ex k. (c, Never)"
         and this = "\<lparr>knnClassifier = ([] :: nat list), mapStringToIndex = []\<rparr>"
         and input = "OtherInput (1::nat)" and kOrCallback = JUndefined and cb = JUndefined]
    classify_rejects_iff_no_class
      [where tensor = "\<lambda>a. 0" and getNumClasses = length and predictClass = "\<lambda>c ex k. (c, Never)"
         and this = "\<lparr>knnClassifier = [5 :: nat], mapStringToIndex = []\<rparr>"
         and input = "OtherInput (1::nat)" and kOrCallback = JUndefined and cb = JUndefined]
  by simp

section \<open>BodyPix: the input of segment\<close>

lemma segment_input_no_image:
  assumes "a \<noteq> JNull"
  shows "(segment_input this a = Inl NoInputImageProvided) =
         (typeof a \<noteq> ''function''
          \<and> \<not> (instanceof_HTMLImageElement a \<or> instanceof_HTMLCanvasElement a
                \<or> instanceof_HTMLVideoElement a \<or> instanceof_ImageData a)
          \<and> \<not> (typeof a = ''object''
                \<and> (instanceof_HTMLImageElement (prop_of a ''elt'')
                     \<or> instanceof_HTMLCanvasElement (prop_of a ''elt'')
                     \<or> instanceof_ImageData (prop_of a ''elt'')
                     \<or> instanceof_HTMLVideoElement (prop_of a ''elt'')
                     \<or> instanceof_HTMLCanvasElement (prop_of a ''canvas'')))
          \<and> video this = None)"
  using assms
  by (auto simp add: segment_input_def video_value_def split: option.splits)

text \<open>
  Claim C4, at the first argument \<^verbatim>\<open>null\<close> on an object that was given no video: the claim
  asks for the error that no input image was provided; segment throws a TypeError instead,
  from reading \<^verbatim>\<open>null.elt\<close>, and the handler for unsupported input is not reached. For
  every other first argument the lemma above gives the claim.
\<close>

theorem segment_null_input:
  "segment_input example_BodyPix JNull = Inl TypeError
   \<and> segment example_env example_BodyPix JNull JUndefined JUndefined
       = (example_BodyPix, Rejected TypeError, [])"
  by (simp add: segment_input_def segment_def)


section \<open>BodyPix: the configuration\<close>

text \<open>
  Claim C6, as amended. For every options object the configuration of the new BodyPix
  object takes, field by field, the value of the options object when the object has the
  field and the value is truthy, and the default (multiplier 0.75, outputStride 16,
  segmentationThreshold 0.5, the default palette) when the field is absent or its value
  is falsy (0, NaN, the empty string, false, null, undefined).
\<close>

theorem BodyPix_new_config:
  "BodyPix_new BODYPIX_PALETTE vid (JObject given) =
     Inr \<lparr>video = vid,
          config =
            \<lparr>multiplier =
               (case map_of given ''multiplier'' of
                  Some v \<Rightarrow> if truthy v then v else JNumber (Fin (3 / 4))
                | None \<Rightarrow> JNumber (Fin (3 / 4))),
             outputStride =
               (case map_of given ''outputStride'' of
                  Some v \<Rightarrow> if truthy v then v else JNumber (Fin 16)
                | None \<Rightarrow> JNumber (Fin 16)),
             segmentationThreshold =
               (case map_of given ''segmentationThreshold'' of
                  Some v \<Rightarrow> if truthy v then v else JNumber (Fin (1 / 2))
                | None \<Rightarrow> JNumber (Fin (1 / 2))),
             palette =
               (case map_of given ''palette'' of
                  Some v \<Rightarrow> if truthy v then v else BODYPIX_PALETTE
                | None \<Rightarrow> BODYPIX_PALETTE)\<rparr>\<rparr>"
  by (simp add: BodyPix_new_def DEFAULTS_def js_or_def nullish_def split: option.splits)

theorem BodyPix_new_config_witness:
  "BodyPix_new (JObject []) None (JObject [(''outputStride'', JNumber (Fin 8)), (''multiplier'', JNumber (Fin 0))]) =
     Inr \<lparr>video = None,
          config = \<lparr>multiplier = JNumber (Fin (3 / 4)), outputStride = JNumber (Fin 8),
                    segmentationThreshold = JNumber (Fin (1 / 2)), palette = JObject []\<rparr>\<rparr>"
  using BodyPix_new_config [of "JObject []" None "[(''outputStride'', JNumber (Fin 8)), (''multiplier'', JNumber (Fin 0))]"]
  by simp

text \<open>
  Claim C6 as stated fails for an options object that holds a falsy value: with
  \<^verbatim>\<open>{segmentationThreshold: 0}\<close> the value present is 0 and the configuration keeps 0.5.
\<close>

theorem BodyPix_new_falsy_option:
  "BodyPix_new (JObject []) None (JObject [(''segmentationThreshold'', JNumber (Fin 0))])
     \<noteq> Inr \<lparr>video = None,
             config = merged_config (DEFAULTS (JObject [])) [(''segmentationThreshold'', JNumber (Fin 0))]\<rparr>
   \<and> segmentationThreshold (merged_config (DEFAULTS (JObject [])) [(''segmentationThreshold'', JNumber (Fin 0))])
       = JNumber (Fin 0)
   \<and> BodyPix_new (JObject []) None (JObject [(''segmentationThreshold'', JNumber (Fin 0))])
       = Inr \<lparr>video = None, config = DEFAULTS (JObject [])\<rparr>"
  by (simp add: BodyPix_new_def DEFAULTS_def js_or_def nullish_def merged_config_def overridden_def)


section \<open>BodyPix: the result of segment\<close>

lemma segment_callback:
  "(if typeof cb = ''function'' then cb
    else if typeof c = ''object'' then (if typeof a = ''function'' then a else JUndefined)
    else if typeof c = ''function'' then c
    else (if typeof a = ''function'' then a else JUndefined))
   = supplied_callback a c cb"
  by (cases c) (simp_all add: supplied_callback_def)

lemma segment_unfold:
  assumes "segment_input this a = Inr (img, cb0)"
  shows "segment env this a c cb =
           (fst (segmentInternal env this img
                   (if typeof c = ''object'' then c else config_value (config this))),
            callCallback
              (snd (segmentInternal env this img
                      (if typeof c = ''object'' then c else config_value (config this))))
              (supplied_callback a c cb))"
proof -
  have cb0: "cb0 = (if typeof a = ''function'' then a else JUndefined)"
    using assms by (auto simp add: segment_input_def split: if_splits)
  show ?thesis
    unfolding segment_callback [symmetric]
    by (simp add: segment_def assms Let_def split_beta cb0)
qed

lemma segment_promise:
  assumes "segment_input this a = Inr (img, cb0)"
  shows "fst (snd (segment env this a c cb)) =
           snd (segmentInternal env this img
                  (if typeof c = ''object'' then c else config_value (config this)))"
    and "fst (segment env this a c cb) =
           fst (segmentInternal env this img
                  (if typeof c = ''object'' then c else config_value (config this)))"
    and "snd (snd (segment env this a c cb)) =
           snd (callCallback (fst (snd (segment env this a c cb))) (supplied_callback a c cb))"
  by (simp_all add: segment_unfold [OF assms] callCallback_def)

lemma config_value_props:
  "prop_of (config_value c) ''outputStride'' = outputStride c"
  "prop_of (config_value c) ''segmentationThreshold'' = segmentationThreshold c"
  "\<not> nullish (config_value c)"
  by (simp_all add: config_value_def nullish_def)

lemma segmentInternal_runs:
  assumes "model_ready env = Resolved u"
    and "\<not> (video this \<noteq> None \<and> video_readyState env = 0 \<and> \<not> video_loadeddata env)"
    and "\<not> nullish so"
  shows "segmentInternal env this img so =
     (this\<lparr>config := (config this)
         \<lparr>outputStride := js_or (prop_of so ''outputStride'') (outputStride (config this)),
          segmentationThreshold :=
            js_or (prop_of so ''segmentationThreshold'') (segmentationThreshold (config this))\<rparr>\<rparr>,
      and_then
        (await (estimatePersonSegmentation env img
                  (js_or (prop_of so ''outputStride'') (outputStride (config this)))
                  (js_or (prop_of so ''segmentationThreshold'') (segmentationThreshold (config this)))))
        (\<lambda>segmentation.
           if checkP5 env then
             and_then (await (rawToBlob env (toMaskImageData env segmentation True) segmentation))
               (\<lambda>blob1.
             and_then (await (rawToBlob env (toMaskImageData env segmentation False) segmentation))
               (\<lambda>blob2.
             and_then (await (blobToP5Image env blob1)) (\<lambda>p5Image1.
             and_then (await (blobToP5Image env blob2)) (\<lambda>p5Image2.
               Resolved \<lparr>maskBackground = p5Image1, maskPerson = p5Image2, raw = segmentation\<rparr>))))
           else
             Resolved
               \<lparr>maskBackground = toMaskImageData env segmentation True,
                maskPerson = toMaskImageData env segmentation False,
                raw = segmentation\<rparr>))"
  unfolding segmentInternal_def assms(1)
  using assms(2,3) by (simp only: promise.case if_False Let_def) simp

text \<open>
  Claim C7. For every input image that segment accepts, when the model is loaded, the
  constructor's video (if any) has or gets its data, the second argument is not null and
  the model returns a segmentation for the image, segment resolves to an object with
  maskBackground, maskPerson and raw: raw is the model's segmentation and the two masks
  are made from that same segmentation (the background mask and the person mask of
  toMaskImageData, turned into p5 images when p5 is present).
\<close>

theorem segment_result_shape:
  assumes ready: "model_ready env = Resolved u"
    and vid: "video this = None \<or> video_readyState env \<noteq> 0 \<or> video_loadeddata env"
    and inp: "segment_input this optionsOrCallback = Inr (img, cb0)"
    and cfg: "configOrCallback \<noteq> JNull"
    and est: "estimatePersonSegmentation env img
                (outputStride (config (fst (segment env this optionsOrCallback configOrCallback cb))))
                (segmentationThreshold (config (fst (segment env this optionsOrCallback configOrCallback cb))))
              = Returns segmentation"
    and p5: "checkP5 env \<Longrightarrow>
               rawToBlob env (toMaskImageData env segmentation True) segmentation = Returns blob1
             \<and> rawToBlob env (toMaskImageData env segmentation False) segmentation = Returns blob2
             \<and> blobToP5Image env blob1 = Returns p5Image1
             \<and> blobToP5Image env blob2 = Returns p5Image2"
  shows "fst (snd (segment env this optionsOrCallback configOrCallback cb)) =
           Resolved
             \<lparr>maskBackground = (if checkP5 env then p5Image1 else toMaskImageData env segmentation True),
              maskPerson = (if checkP5 env then p5Image2 else toMaskImageData env segmentation False),
              raw = segmentation\<rparr>"
proof -
  define so where "so = (if typeof configOrCallback = ''object'' then configOrCallback
                         else config_value (config this))"
  have nn: "\<not> nullish so"
    using cfg by (cases configOrCallback) (simp_all add: so_def nullish_def config_value_def)
  have waits: "\<not> (video this \<noteq> None \<and> video_readyState env = 0 \<and> \<not> video_loadeddata env)"
    using vid by auto
  note run = segmentInternal_runs [OF ready waits nn, of img]
  have st: "fst (segment env this optionsOrCallback configOrCallback cb) =
              fst (segmentInternal env this img so)"
    unfolding so_def by (rule segment_promise(2) [OF inp])
  have pr: "fst (snd (segment env this optionsOrCallback configOrCallback cb)) =
              snd (segmentInternal env this img so)"
    unfolding so_def by (rule segment_promise(1) [OF inp])
  have est': "estimatePersonSegmentation env img
                (js_or (prop_of so ''outputStride'') (outputStride (config this)))
                (js_or (prop_of so ''segmentationThreshold'') (segmentationThreshold (config this)))
              = Returns segmentation"
    using est unfolding st run by simp
  show ?thesis
  proof -
    { assume c: "checkP5 env"
      have ?thesis
        unfolding pr run using est' p5 [OF c] c by simp }
    moreover
    { assume c: "\<not> checkP5 env"
      have ?thesis
        unfolding pr run using est' c by simp }
    ultimately show ?thesis by blast
  qed
qed


theorem segment_result_shape_witness:
  "fst (snd (segment example_env example_BodyPix (JElement (HTMLImageElement 1)) JUndefined JUndefined))
     = Resolved \<lparr>maskBackground = 180, maskPerson = 190, raw = 7\<rparr>"
  using segment_result_shape
    [where env = example_env and this = example_BodyPix and u = "()"
       and optionsOrCallback = "JElement (HTMLImageElement 1)"
       and img = "JElement (HTMLImageElement 1)" and ?cb0.0 = JUndefined
       and configOrCallback = JUndefined and cb = JUndefined and segmentation = 7
       and ?blob1.0 = 80 and ?blob2.0 = 90 and ?p5Image1.0 = 180 and ?p5Image2.0 = 190]
  by (simp add: example_env_def example_BodyPix_def segment_input_def)

section \<open>Callbacks and promises\<close>

lemma callCallback_function: "callCallback p (JFunction f) = (p, delivered f p)"
  by (simp add: callCallback_def delivered_def)

lemma callCallback_other: "typeof callback \<noteq> ''function'' \<Longrightarrow> callCallback p callback = (p, [])"
  by (cases callback) (simp_all add: callCallback_def)

lemma classify_unfold:
  "classify tensor getNumClasses predictClass this input kOrCallback cb =
     (fst (classifyInternal getNumClasses predictClass this
             (case input of ArrayInput a \<Rightarrow> tensor a | OtherInput t \<Rightarrow> t)
             (if typeof kOrCallback = ''number'' then kOrCallback else JNumber (Fin 3))),
      callCallback
        (snd (classifyInternal getNumClasses predictClass this
                (case input of ArrayInput a \<Rightarrow> tensor a | OtherInput t \<Rightarrow> t)
                (if typeof kOrCallback = ''number'' then kOrCallback else JNumber (Fin 3))))
        (if typeof kOrCallback = ''function'' then kOrCallback else cb))"
  by (cases kOrCallback) (simp_all add: classify_def Let_def split_beta)

lemma segment_log:
  assumes "segment_input this a = Inr (img, cb0)"
  shows "snd (snd (segment env this a c cb)) =
           (case supplied_callback a c cb of
              JFunction f \<Rightarrow> delivered f (fst (snd (segment env this a c cb)))
            | _ \<Rightarrow> [])"
proof -
  define sc where "sc = supplied_callback a c cb"
  show ?thesis
    unfolding segment_unfold [OF assms] sc_def [symmetric]
    by (cases sc) (simp_all add: callCallback_def delivered_def)
qed

text \<open>
  Where \<^verbatim>\<open>detect\<close> does not reach \<^verbatim>\<open>callCallback\<close>: when the loading of the model or the model's
  detection fails, the promise is rejected and no callback is invoked.
\<close>

lemma detect_failure_skips_callback:
  "detect (Rejected e) cocoSsdModel_detect subj callback = (Rejected e, [])"
  "cocoSsdModel_detect subj = Fails msg \<Longrightarrow>
   detect (Resolved u) cocoSsdModel_detect subj callback = (Rejected (LibraryError msg), [])"
  by (simp_all add: detect_def)

lemma segment_promise_any:
  "fst (snd (segment env this a c cb)) = fst (snd (segment env this a c cb'))"
proof -
  define si where "si = segment_input this a"
  show ?thesis
    by (cases si) (simp_all add: segment_def callCallback_def Let_def split_beta si_def [symmetric])
qed

lemma segment_promise_second:
  "fst (snd (segment env this a (JFunction f) cb)) = fst (snd (segment env this a JUndefined cb))"
proof -
  define si where "si = segment_input this a"
  show ?thesis
    by (cases si) (simp_all add: segment_def callCallback_def Let_def split_beta si_def [symmetric])
qed

text \<open>
  Claim C1, as amended. KNN classify always, CocoSsd detect when the model is loaded and
  its detection returns, and BodyPix segment when its first part accepts the first
  argument return a promise and, when a callback function is supplied, invoke it once the
  promise has settled, with the promise's error or result; when none is supplied no
  callback is invoked. For classify and detect the promise is the same with and without
  the callback. For segment it is the same when the callback is the second or the third
  argument. A callback as first argument stands where the image would be: the
  constructor's video is segmented, without the check for an input image. That is the
  promise of segment called without a first argument when a video was given to the
  constructor; when none was given, the call without a first argument is rejected with
  the error that no input image was provided, and the call with the callback goes on to
  the model. When segment throws in its first part the promise is rejected with that
  error and the supplied callback is not invoked.
\<close>

theorem callback_and_promise_agree:
  "(kOrCallback = JFunction f \<longrightarrow>
      snd (snd (classify tensor getNumClasses predictClass knn input kOrCallback cb))
        = delivered f (fst (snd (classify tensor getNumClasses predictClass knn input kOrCallback cb)))
    \<and> fst (snd (classify tensor getNumClasses predictClass knn input kOrCallback cb))
        = fst (snd (classify tensor getNumClasses predictClass knn input JUndefined JUndefined)))
   \<and> (typeof kOrCallback \<noteq> ''function'' \<longrightarrow>
      snd (snd (classify tensor getNumClasses predictClass knn input kOrCallback (JFunction f)))
        = delivered f (fst (snd (classify tensor getNumClasses predictClass knn input kOrCallback (JFunction f))))
    \<and> fst (snd (classify tensor getNumClasses predictClass knn input kOrCallback (JFunction f)))
        = fst (snd (classify tensor getNumClasses predictClass knn input kOrCallback JUndefined)))
   \<and> (typeof kOrCallback \<noteq> ''function'' \<and> typeof cb \<noteq> ''function'' \<longrightarrow>
      snd (snd (classify tensor getNumClasses predictClass knn input kOrCallback cb)) = [])
   \<and> (ready = Resolved u \<and> cocoSsdModel_detect subj = Returns predictions \<longrightarrow>
      snd (detect ready cocoSsdModel_detect subj (JFunction f))
        = delivered f (fst (detect ready cocoSsdModel_detect subj (JFunction f)))
    \<and> fst (detect ready cocoSsdModel_detect subj (JFunction f))
        = fst (detect ready cocoSsdModel_detect subj JUndefined)
    \<and> snd (detect ready cocoSsdModel_detect subj JUndefined) = []
    \<and> (typeof cb \<noteq> ''function'' \<longrightarrow> snd (detect ready cocoSsdModel_detect subj cb) = []))
   \<and> (segment_input bp optionsOrCallback = Inr (img, cb0) \<longrightarrow>
      snd (snd (segment env bp optionsOrCallback configOrCallback cb))
        = (case supplied_callback optionsOrCallback configOrCallback cb of
             JFunction g \<Rightarrow> delivered g (fst (snd (segment env bp optionsOrCallback configOrCallback cb)))
           | _ \<Rightarrow> []))
   \<and> fst (snd (segment env bp optionsOrCallback configOrCallback (JFunction f)))
       = fst (snd (segment env bp optionsOrCallback configOrCallback JUndefined))
   \<and> fst (snd (segment env bp optionsOrCallback (JFunction f) cb))
       = fst (snd (segment env bp optionsOrCallback JUndefined cb))
   \<and> fst (snd (segment env bp (JFunction f) configOrCallback cb))
       = snd (segmentInternal env bp (video_value bp)
                (if typeof configOrCallback = ''object'' then configOrCallback
                 else config_value (config bp)))
   \<and> (video bp \<noteq> None \<longrightarrow>
        fst (snd (segment env bp (JFunction f) configOrCallback cb))
          = fst (snd (segment env bp JUndefined configOrCallback cb)))
   \<and> (video bp = None \<longrightarrow>
        fst (snd (segment env bp JUndefined configOrCallback cb)) = Rejected NoInputImageProvided)
   \<and> (segment_input bp optionsOrCallback = Inl e \<longrightarrow>
      snd (segment env bp optionsOrCallback configOrCallback cb) = (Rejected e, []))"
proof -
  have k1: "kOrCallback = JFunction f \<longrightarrow>
      snd (snd (classify tensor getNumClasses predictClass knn input kOrCallback cb))
        = delivered f (fst (snd (classify tensor getNumClasses predictClass knn input kOrCallback cb)))
    \<and> fst (snd (classify tensor getNumClasses predictClass knn input kOrCallback cb))
        = fst (snd (classify tensor getNumClasses predictClass knn input JUndefined JUndefined))"
    by (simp add: classify_unfold callCallback_function callCallback_other)
  have k2: "typeof kOrCallback \<noteq> ''function'' \<longrightarrow>
      snd (snd (classify tensor getNumClasses predictClass knn input kOrCallback (JFunction f)))
        = delivered f (fst (snd (classify tensor getNumClasses predictClass knn input kOrCallback (JFunction f))))
    \<and> fst (snd (classify tensor getNumClasses predictClass knn input kOrCallback (JFunction f)))
        = fst (snd (classify tensor getNumClasses predictClass knn input kOrCallback JUndefined))"
    by (simp add: classify_unfold callCallback_function callCallback_other)
  have k3: "typeof kOrCallback \<noteq> ''function'' \<and> typeof cb \<noteq> ''function'' \<longrightarrow>
      snd (snd (classify tensor getNumClasses predictClass knn input kOrCallback cb)) = []"
    by (simp add: classify_unfold callCallback_other)
  have d: "ready = Resolved u \<and> cocoSsdModel_detect subj = Returns predictions \<longrightarrow>
      snd (detect ready cocoSsdModel_detect subj (JFunction f))
        = delivered f (fst (detect ready cocoSsdModel_detect subj (JFunction f)))
    \<and> fst (detect ready cocoSsdModel_detect subj (JFunction f))
        = fst (detect ready cocoSsdModel_detect subj JUndefined)
    \<and> snd (detect ready cocoSsdModel_detect subj JUndefined) = []
    \<and> (typeof cb \<noteq> ''function'' \<longrightarrow> snd (detect ready cocoSsdModel_detect subj cb) = [])"
    by (simp add: detect_def callCallback_function callCallback_other)
  have s1: "segment_input bp optionsOrCallback = Inr (img, cb0) \<longrightarrow>
      snd (snd (segment env bp optionsOrCallback configOrCallback cb))
        = (case supplied_callback optionsOrCallback configOrCallback cb of
             JFunction g \<Rightarrow> delivered g (fst (snd (segment env bp optionsOrCallback configOrCallback cb)))
           | _ \<Rightarrow> [])"
    using segment_log [of bp optionsOrCallback img cb0 env configOrCallback cb]
    by simp
  have s2: "segment_input bp optionsOrCallback = Inl e \<longrightarrow>
      snd (segment env bp optionsOrCallback configOrCallback cb) = (Rejected e, [])"
    by (simp add: segment_def)
  have s3: "fst (snd (segment env bp optionsOrCallback configOrCallback (JFunction f)))
       = fst (snd (segment env bp optionsOrCallback configOrCallback JUndefined))"
    by (rule segment_promise_any)
  have s4: "fst (snd (segment env bp optionsOrCallback (JFunction f) cb))
       = fst (snd (segment env bp optionsOrCallback JUndefined cb))"
    by (rule segment_promise_second)
  have fi: "segment_input bp (JFunction f) = Inr (video_value bp, JFunction f)"
    by (simp add: segment_input_def)
  have s5: "fst (snd (segment env bp (JFunction f) configOrCallback cb))
       = snd (segmentInternal env bp (video_value bp)
                (if typeof configOrCallback = ''object'' then configOrCallback
                 else config_value (config bp)))"
    by (rule segment_promise(1) [OF fi])
  have s6: "video bp \<noteq> None \<longrightarrow>
        fst (snd (segment env bp (JFunction f) configOrCallback cb))
          = fst (snd (segment env bp JUndefined configOrCallback cb))"
  proof
    assume v: "video bp \<noteq> None"
    then have "segment_input bp JUndefined = Inr (video_value bp, JUndefined)"
      by (auto simp add: segment_input_def video_value_def)
    then show "fst (snd (segment env bp (JFunction f) configOrCallback cb))
          = fst (snd (segment env bp JUndefined configOrCallback cb))"
      unfolding s5 by (simp add: segment_promise(1))
  qed
  have s7: "video bp = None \<longrightarrow>
        fst (snd (segment env bp JUndefined configOrCallback cb)) = Rejected NoInputImageProvided"
    by (simp add: segment_def segment_input_def video_value_def)
  show ?thesis
    using k1 k2 k3 d s1 s2 s3 s4 s5 s6 s7 by blast
qed

theorem callback_and_promise_agree_witness:
  "snd (segment example_env example_BodyPix (JElement (HTMLImageElement 1)) JUndefined (JFunction 5))
     = (Resolved \<lparr>maskBackground = 180, maskPerson = 190, raw = 7\<rparr>,
        [CbCall 5 None (Some \<lparr>maskBackground = 180, maskPerson = 190, raw = 7\<rparr>)])
   \<and> snd (segment example_env example_BodyPix (JString ''no image'') JUndefined (JFunction 5))
     = (Rejected NoInputImageProvided, [])
   \<and> snd (segment example_env example_BodyPix (JFunction 5) JUndefined JUndefined)
     = (Resolved \<lparr>maskBackground = 180, maskPerson = 190, raw = 7\<rparr>,
        [CbCall 5 None (Some \<lparr>maskBackground = 180, maskPerson = 190, raw = 7\<rparr>)])
   \<and> snd (segment example_env example_BodyPix JUndefined JUndefined JUndefined)
     = (Rejected NoInputImageProvided, [])
   \<and> snd (classify (\<lambda>a. 0) length (\<lambda>c ex k. (c, Fails ''failed''))
            \<lparr>knnClassifier = [5 :: nat], mapStringToIndex = []\<rparr>
            (OtherInput (1::nat)) (JFunction 5) JUndefined)
     = (Rejected (LibraryError ''failed''), [CbCall 5 (Some (LibraryError ''failed'')) None])"
  using callback_and_promise_agree
    [where kOrCallback = "JFunction 5" and f = 5 and tensor = "\<lambda>a. 0" and getNumClasses = length
       and predictClass = "\<lambda>c ex k. (c, Fails ''failed'')"
       and knn = "\<lparr>knnClassifier = [5 :: nat], mapStringToIndex = []\<rparr>"
       and input = "OtherInput (1::nat)" and cb = JUndefined
       and env = example_env and bp = example_BodyPix
       and optionsOrCallback = "JElement (HTMLImageElement 1)"
       and img = "JElement (HTMLImageElement 1)" and ?cb0.0 = JUndefined
       and configOrCallback = JUndefined]
    callback_and_promise_agree
    [where env = example_env and bp = example_BodyPix
       and optionsOrCallback = "JString ''no image''" and e = NoInputImageProvided
       and configOrCallback = JUndefined and cb = "JFunction 5"]
  by (simp add: example_env_def example_BodyPix_def segment_input_def segment_def
        segmentInternal_def callCallback_def classify_def classifyInternal_def
        delivered_def supplied_callback_def video_value_def config_value_def nullish_def
        DEFAULTS_def js_or_def Let_def)

text \<open>
  Claim C1 as stated fails where segment throws for want of an input image: a callback is
  supplied as third argument, the promise is rejected, and the callback is never invoked.
\<close>

theorem segment_throw_skips_callback:
  "supplied_callback (JNumber (Fin 42)) JUndefined (JFunction 1) = JFunction 1
   \<and> fst (snd (segment example_env example_BodyPix (JNumber (Fin 42)) JUndefined (JFunction 1)))
       = Rejected NoInputImageProvided
   \<and> snd (snd (segment example_env example_BodyPix (JNumber (Fin 42)) JUndefined (JFunction 1))) = []
   \<and> snd (snd (segment example_env example_BodyPix (JNumber (Fin 42)) JUndefined (JFunction 1)))
       \<noteq> delivered 1 (fst (snd (segment example_env example_BodyPix (JNumber (Fin 42)) JUndefined (JFunction 1))))"
  by (simp add: supplied_callback_def segment_def segment_input_def example_BodyPix_def
        video_value_def delivered_def)


section \<open>NeuralNetworkData: where the numbers are computed\<close>




















section \<open>KNNClassifier: majority vote among the k closest\<close>

lemma most_voted_in: "most_voted v cs best \<in> set (best # cs)"
  by (induction cs arbitrary: best) (simp, fastforce)

lemma most_voted_ge_best: "v best \<le> v (most_voted v cs best)"
proof (induction cs arbitrary: best)
  case Nil
  show ?case by simp
next
  case (Cons c cs)
  show ?case
    using Cons [of "if v best < v c then c else best"]
    by (simp split: if_splits)
qed

lemma most_voted_max: "c \<in> set (best # cs) \<Longrightarrow> v c \<le> v (most_voted v cs best)"
proof (induction cs arbitrary: best)
  case Nil
  then show ?case by simp
next
  case (Cons d cs)
  define b where "b = (if v best < v d then d else best)"
  have step: "most_voted v (d # cs) best = most_voted v cs b"
    by (simp add: b_def)
  have ge: "v b \<le> v (most_voted v cs b)"
    by (rule most_voted_ge_best)
  consider (best) "c = best" | (d) "c = d" | (rest) "c \<in> set cs"
    using Cons.prems by auto
  then show ?case
  proof cases
    case best
    have "v best \<le> v b" by (simp add: b_def)
    with ge show ?thesis unfolding step best by linarith
  next
    case d
    have "v d \<le> v b" by (simp add: b_def)
    with ge show ?thesis unfolding step d by linarith
  next
    case rest
    then show ?thesis unfolding step using Cons.IH [of b] by simp
  qed
qed

lemma votes_zero: "cls \<notin> fst ` set ns \<Longrightarrow> votes ns cls = 0"
  by (auto simp add: votes_def filter_empty_conv)

lemma votes_winner:
  "votes (e # es) cls \<le> votes (e # es) (most_voted (votes (e # es)) (map fst es) (fst e))"
proof -
  { assume "cls \<in> fst ` set (e # es)"
    then have "cls \<in> set (fst e # map fst es)" by auto
    then have ?thesis by (rule most_voted_max) }
  moreover
  { assume "cls \<notin> fst ` set (e # es)"
    then have ?thesis by (simp add: votes_zero) }
  ultimately show ?thesis by blast
qed

lemma k_closest_props:
  "length (k_closest distance store query n) = min n (length store)"
  "mset (k_closest distance store query n) \<subseteq># mset store"
  "a \<in># mset (k_closest distance store query n) \<Longrightarrow>
   b \<in># mset store - mset (k_closest distance store query n) \<Longrightarrow>
   distance query (snd a) \<le> distance query (snd b)"
proof -
  define s where "s = sort_key (\<lambda>e. distance query (snd e)) store"
  have kc: "k_closest distance store query n = take n s"
    by (simp add: k_closest_def s_def)
  have ms: "mset store = mset (take n s) + mset (drop n s)"
    by (simp add: s_def flip: mset_append)
  show "length (k_closest distance store query n) = min n (length store)"
    by (simp add: kc s_def min.commute)
  show "mset (k_closest distance store query n) \<subseteq># mset store"
    unfolding kc ms by simp
  show "distance query (snd a) \<le> distance query (snd b)"
    if a: "a \<in># mset (k_closest distance store query n)"
      and b: "b \<in># mset store - mset (k_closest distance store query n)"
  proof -
    have a': "a \<in> set (take n s)" using a by (simp add: kc)
    have b': "b \<in> set (drop n s)" using b unfolding kc ms by simp
    have "sorted (map (\<lambda>e. distance query (snd e)) (take n s @ drop n s))"
      by (simp add: s_def)
    then show ?thesis
      unfolding map_append sorted_append using a' b' by auto
  qed
qed

lemma knn_getNumClasses_card: "knn_getNumClasses store = card (fst ` set store)"
  by (simp add: knn_getNumClasses_def length_remdups_card_conv)

lemma knn_getNumClasses_pos: "store \<noteq> [] \<Longrightarrow> 0 < knn_getNumClasses store"
  by (cases store) (auto simp add: knn_getNumClasses_def)

lemma label_at_index:
  "w < length labels \<Longrightarrow> label_at labels (JNumber (Fin (of_nat w))) = JString (labels ! w)"
  by (simp add: is_index_def)

text \<open>
  Claim C2, against the k-NN classifier modelled from the glossary. For every non-empty
  store of labelled examples and every query, with k the number the caller passes, or 3
  when the second argument is not a number, and k a positive natural number, classify
  resolves to a result whose classIndex is a class with the most votes among the
  neighbours, where the neighbours are min k (number of examples) of the stored
  examples and every neighbour is at least as close to the query as every stored example
  left out. When the label array has a non-empty label at that index, the result carries
  it as label.
\<close>

theorem classify_majority_vote:
  assumes store: "store \<noteq> []"
    and k: "k_of (if typeof kOrCallback = ''number'' then kOrCallback else JNumber (Fin 3)) = Some n"
    and n: "0 < n"
  shows "\<exists>res w neighbours.
           fst (snd (classify tensor knn_getNumClasses (knn_predictClass distance)
                       \<lparr>knnClassifier = store, mapStringToIndex = labels\<rparr> input kOrCallback cb))
             = Resolved res
         \<and> classIndex res = JNumber (Fin (of_nat w))
         \<and> (w < length labels \<and> labels ! w \<noteq> [] \<longrightarrow> label res = JString (labels ! w))
         \<and> length neighbours = min n (length store)
         \<and> mset neighbours \<subseteq># mset store
         \<and> (\<forall>a \<in># mset neighbours. \<forall>b \<in># mset store - mset neighbours.
               distance (case input of ArrayInput a \<Rightarrow> tensor a | OtherInput t \<Rightarrow> t) (snd a)
                 \<le> distance (case input of ArrayInput a \<Rightarrow> tensor a | OtherInput t \<Rightarrow> t) (snd b))
         \<and> w \<in> fst ` set neighbours
         \<and> (\<forall>cls. votes neighbours cls \<le> votes neighbours w)"
proof -
  define query where "query = (case input of ArrayInput a \<Rightarrow> tensor a | OtherInput t \<Rightarrow> t)"
  define kv where "kv = (if typeof kOrCallback = ''number'' then kOrCallback else JNumber (Fin 3))"
  define ns where "ns = k_closest distance store query n"
  have len: "length ns = min n (length store)"
    unfolding ns_def by (rule k_closest_props(1))
  then have "0 < length ns" using store n by (simp add: min_def)
  then have "ns \<noteq> []" by simp
  then obtain e es where ns: "ns = e # es" by (cases ns) auto
  define w where "w = most_voted (votes (e # es)) (map fst es) (fst e)"
  define res0 where "res0 =
     \<lparr>classIndex = JNumber (Fin (of_nat w)), label = JUndefined,
      confidences =
        Some (map (\<lambda>cls. (cls, Fin (of_nat (votes (e # es) cls) / of_nat (length (e # es)))))
               (sort (remdups (map fst store)))),
      confidencesByLabel = None\<rparr>"
  have pc: "knn_predictClass distance store query kv = (store, Returns res0)"
    using k ns by (simp add: knn_predictClass_def kv_def ns_def [symmetric] res0_def w_def)
  have pos: "\<not> knn_getNumClasses store \<le> 0"
    using knn_getNumClasses_pos [OF store] by simp
  have win: "w \<in> fst ` set ns"
    using most_voted_in [of "votes (e # es)" "map fst es" "fst e"] by (auto simp add: w_def ns)
  have mx: "votes ns cls \<le> votes ns w" for cls
    unfolding ns w_def by (rule votes_winner)
  obtain res where res:
      "snd (classifyInternal knn_getNumClasses (knn_predictClass distance)
              \<lparr>knnClassifier = store, mapStringToIndex = labels\<rparr> query kv) = Resolved res"
      "classIndex res = JNumber (Fin (of_nat w))"
      "w < length labels \<and> labels ! w \<noteq> [] \<longrightarrow> label res = JString (labels ! w)"
  proof -
    { assume e: "labels = []"
      have "snd (classifyInternal knn_getNumClasses (knn_predictClass distance)
              \<lparr>knnClassifier = store, mapStringToIndex = labels\<rparr> query kv) = Resolved res0"
        using pos by (simp add: classifyInternal_def pc e)
      then have ?thesis using that [of res0] by (simp add: res0_def e) }
    moreover
    { assume ne: "labels \<noteq> []"
      define lbl where "lbl = label_at labels (JNumber (Fin (of_nat w)))"
      define res1 where "res1 = (if truthy lbl then res0\<lparr>label := lbl\<rparr> else res0)"
      define res2 where "res2 = res1\<lparr>confidencesByLabel :=
          Some (fold (\<lambda>(index, c) byLabel. byLabel(label_key labels index \<mapsto> c))
                  (the (confidences res1)) Map.empty)\<rparr>"
      have t: "truthy (classIndex res0) \<or> classIndex res0 = JNumber (Fin 0)"
        by (auto simp add: res0_def)
      have c1: "confidences res1 = confidences res0"
        by (simp add: res1_def)
      have "snd (classifyInternal knn_getNumClasses (knn_predictClass distance)
              \<lparr>knnClassifier = store, mapStringToIndex = labels\<rparr> query kv) = Resolved res2"
        using pos ne t
        by (simp add: classifyInternal_def pc Let_def res2_def res1_def lbl_def res0_def)
      moreover have "classIndex res2 = JNumber (Fin (of_nat w))"
        by (simp add: res2_def res1_def res0_def)
      moreover have "w < length labels \<and> labels ! w \<noteq> [] \<longrightarrow> label res2 = JString (labels ! w)"
        by (simp add: res2_def res1_def lbl_def label_at_index del: label_at.simps)
      ultimately have ?thesis using that [of res2] by blast }
    ultimately show ?thesis by blast
  qed
  have close: "\<forall>a \<in># mset ns. \<forall>b \<in># mset store - mset ns.
      distance query (snd a) \<le> distance query (snd b)"
    unfolding ns_def using k_closest_props(3) [of _ distance store query n] by blast
  have sub: "mset ns \<subseteq># mset store"
    unfolding ns_def by (rule k_closest_props(2))
  have pr: "fst (snd (classify tensor knn_getNumClasses (knn_predictClass distance)
                       \<lparr>knnClassifier = store, mapStringToIndex = labels\<rparr> input kOrCallback cb))
          = snd (classifyInternal knn_getNumClasses (knn_predictClass distance)
              \<lparr>knnClassifier = store, mapStringToIndex = labels\<rparr> query kv)"
    by (simp add: classify_unfold callCallback_def query_def kv_def)
  show ?thesis
    unfolding query_def [symmetric] pr
    using res len sub close win mx by blast
qed

theorem classify_majority_vote_witness:
  "[(0, 1), (1, 10), (0, 2), (1, 11), (1, 12)] \<noteq> ([] :: (nat \<times> rat) list)
   \<and> k_of (if typeof JUndefined = ''number'' then JUndefined else JNumber (Fin 3)) = Some 3
   \<and> (0 :: nat) < 3
   \<and> (\<exists>res w (neighbours :: (nat \<times> rat) list).
         fst (snd (classify (\<lambda>a. 0) knn_getNumClasses (knn_predictClass (\<lambda>a b. \<bar>a - b\<bar>))
                     \<lparr>knnClassifier = [(0, 1), (1, 10), (0, 2), (1, 11), (1, 12)],
                      mapStringToIndex = [''small'', ''large'']\<rparr>
                     (OtherInput (3 :: rat)) JUndefined JUndefined)) = Resolved res
       \<and> classIndex res = JNumber (Fin (of_nat w))
       \<and> length neighbours = 3
       \<and> w \<in> fst ` set neighbours
       \<and> (\<forall>cls. votes neighbours cls \<le> votes neighbours w))
   \<and> (\<exists>res.
         fst (snd (classify (\<lambda>a. 0) knn_getNumClasses (knn_predictClass (\<lambda>a b. \<bar>a - b\<bar>))
                     \<lparr>knnClassifier = [(0, 1), (1, 10), (0, 2), (1, 11), (1, 12)],
                      mapStringToIndex = [''small'', ''large'']\<rparr>
                     (OtherInput (3 :: rat)) JUndefined JUndefined)) = Resolved res
       \<and> classIndex res = JNumber (Fin 0) \<and> label res = JString ''small'')"
proof -
  have k: "k_of (if typeof JUndefined = ''number'' then JUndefined else JNumber (Fin 3)) = Some 3"
    by (simp add: is_index_def)
  have s: "[(0, 1), (1, 10), (0, 2), (1, 11), (1, 12)] \<noteq> ([] :: (nat \<times> rat) list)"
    by simp
  have n: "(0 :: nat) < 3" by simp
  have ev: "\<exists>res.
         fst (snd (classify (\<lambda>a. 0) knn_getNumClasses (knn_predictClass (\<lambda>a b. \<bar>a - b\<bar>))
                     \<lparr>knnClassifier = [(0, 1), (1, 10), (0, 2), (1, 11), (1, 12)],
                      mapStringToIndex = [''small'', ''large'']\<rparr>
                     (OtherInput (3 :: rat)) JUndefined JUndefined)) = Resolved res
       \<and> classIndex res = JNumber (Fin 0) \<and> label res = JString ''small''"
    by (simp add: classify_unfold callCallback_def classifyInternal_def knn_getNumClasses_def
          knn_predictClass_def k_closest_def is_index_def votes_def Let_def)
  obtain res w and neighbours :: "(nat \<times> rat) list" where r:
      "fst (snd (classify (\<lambda>a. 0) knn_getNumClasses (knn_predictClass (\<lambda>a b. \<bar>a - b\<bar>))
                     \<lparr>knnClassifier = [(0, 1), (1, 10), (0, 2), (1, 11), (1, 12)],
                      mapStringToIndex = [''small'', ''large'']\<rparr>
                     (OtherInput (3 :: rat)) JUndefined JUndefined)) = Resolved res"
      "classIndex res = JNumber (Fin (of_nat w))"
      "length neighbours = min 3 (length [(0 :: nat, 1 :: rat), (1, 10), (0, 2), (1, 11), (1, 12)])"
      "w \<in> fst ` set neighbours"
      "\<forall>cls. votes neighbours cls \<le> votes neighbours w"
    using classify_majority_vote [OF s k n, where tensor = "\<lambda>a. 0" and distance = "\<lambda>a b. \<bar>a - b\<bar>"
        and labels = "[''small'', ''large'']" and input = "OtherInput (3 :: rat)" and cb = JUndefined]
    by blast
  have "length neighbours = 3" using r(3) by simp
  with r have "\<exists>res w (neighbours :: (nat \<times> rat) list).
         fst (snd (classify (\<lambda>a. 0) knn_getNumClasses (knn_predictClass (\<lambda>a b. \<bar>a - b\<bar>))
                     \<lparr>knnClassifier = [(0, 1), (1, 10), (0, 2), (1, 11), (1, 12)],
                      mapStringToIndex = [''small'', ''large'']\<rparr>
                     (OtherInput (3 :: rat)) JUndefined JUndefined)) = Resolved res
       \<and> classIndex res = JNumber (Fin (of_nat w))
       \<and> length neighbours = 3
       \<and> w \<in> fst ` set neighbours
       \<and> (\<forall>cls. votes neighbours cls \<le> votes neighbours w)"
    by blast
  with s k n ev show ?thesis by blast
qed

end
